theory Spec2Isabelle
  imports Main "HOL-Library.Word"
begin

section \<open>The leader query of \<open>server/etcdutil/get_leader.go\<close>\<close>

text \<open>
  The file declares the one-method interface \<open>EtcdLeaderGetter\<close> and its only
  implementation, \<open>LeaderGetterWrapper\<close>, a struct holding a pointer to an embedded etcd
  server. The method \<open>EtcdLeaderID\<close> is
  \<^verbatim>\<open>
  func (w *LeaderGetterWrapper) EtcdLeaderID() (uint64, error) {
      return w.Server.Lead(), nil
  }
  \<close>
  Pointers are addresses into a memory of objects, \<open>None\<close> is Go's \<open>nil\<close>; dereferencing
  \<open>nil\<close> is a run-time panic, which the model returns as a value. Every call takes the
  memory and returns it, so that what a call changes is visible.
\<close>

subsection \<open>Data\<close>

type_synonym uint64 = "64 word"

type_synonym addr = nat

text \<open>Go's \<open>error\<close> interface: a non-nil error is known by its message.\<close>

datatype error = Error string

text \<open>The run-time panic of a read through a \<open>nil\<close> pointer.\<close>

datatype panic = NilPointerDereference

text \<open>
  Modelled from the spec: the type \<open>etcdserver.EtcdServer\<close> is imported from
  \<open>go.etcd.io/etcd/server/v3\<close> and is not among the sources. The spec describes the engine
  as maintaining a "current leader field" in memory, a NodeIdentifier (an unsigned
  integer). The record has that field; everything else the engine holds is the
  extension part \<open>more\<close> of the record scheme \<open>'e EtcdServer_scheme\<close>.
\<close>

record EtcdServer =
  lead :: uint64

text \<open>\<^verbatim>\<open>type LeaderGetterWrapper struct { Server *etcdserver.EtcdServer }\<close>\<close>

record LeaderGetterWrapper =
  Server :: "addr option"

text \<open>
  The memory: the engine objects and the wrapper objects, by address. A Go pointer that
  is not \<open>nil\<close> always designates a live object (the collector keeps it), so both
  components are total.
\<close>

record 'e memory =
  servers :: "addr \<Rightarrow> 'e EtcdServer_scheme"
  wrappers :: "addr \<Rightarrow> LeaderGetterWrapper"

subsection \<open>Operations\<close>

text \<open>
  Modelled from the spec: the accessor \<open>(*EtcdServer).Lead\<close> belongs to the imported
  engine. The spec's consumed interface is "a single read accessor yielding the engine's
  current leader NodeIdentifier", reading in-memory state only. Called on \<open>nil\<close> it reads
  a field through \<open>nil\<close>.
\<close>

definition Lead :: "'e memory \<Rightarrow> addr option \<Rightarrow> panic + uint64" where
  "Lead m s =
     (case s of
        None \<Rightarrow> Inl NilPointerDereference
      | Some a \<Rightarrow> Inr (lead (servers m a)))"

text \<open>
  \<open>EtcdLeaderID\<close>, on the receiver \<open>w\<close>: \<open>w.Server\<close> reads the wrapper through \<open>w\<close>,
  \<open>Lead()\<close> is called on the pointer read, and the pair returned is its value and \<open>nil\<close>.
  There is no check of \<open>w\<close> or of \<open>w.Server\<close>, and no assignment.
\<close>

definition EtcdLeaderID ::
  "'e memory \<Rightarrow> addr option \<Rightarrow> (panic + uint64 \<times> error option) \<times> 'e memory" where
  "EtcdLeaderID m w =
     (case w of
        None \<Rightarrow> (Inl NilPointerDereference, m)
      | Some a \<Rightarrow>
          (case Lead m (Server (wrappers m a)) of
             Inl p \<Rightarrow> (Inl p, m)
           | Inr v \<Rightarrow> (Inr (v, None), m)))"




text \<open>
  A caller that queries \<open>n\<close> times in a row, each call on the memory the one before
  left, collecting the results.
\<close>

fun query_n :: "nat \<Rightarrow> 'e memory \<Rightarrow> addr option \<Rightarrow> (panic + uint64 \<times> error option) list" where
  "query_n 0 m w = []"
| "query_n (Suc n) m w = fst (EtcdLeaderID m w) # query_n n (snd (EtcdLeaderID m w)) w"

text \<open>
  A wrapper at address \<open>a\<close> wraps the engine at address \<open>e\<close>: its \<open>Server\<close> field
  points there.
\<close>

definition wraps :: "'e memory \<Rightarrow> addr \<Rightarrow> addr \<Rightarrow> bool" where
  "wraps m a e = (Server (wrappers m a) = Some e)"

text \<open>
  A memory for the examples: one engine whose leader field is \<open>l\<close> and whose other
  state is \<open>x\<close>, at every address, and one wrapper pointing at engine 0.
\<close>

definition memory_of :: "uint64 \<Rightarrow> 'e \<Rightarrow> 'e memory" where
  "memory_of l x =
     \<lparr>servers = (\<lambda>a. \<lparr>lead = l, \<dots> = x\<rparr>), wrappers = (\<lambda>a. \<lparr>Server = Some 0\<rparr>)\<rparr>"

text \<open>The same engine, with a wrapper whose \<open>Server\<close> field is \<open>nil\<close>.\<close>

definition memory_nil :: "uint64 \<Rightarrow> 'e \<Rightarrow> 'e memory" where
  "memory_nil l x =
     \<lparr>servers = (\<lambda>a. \<lparr>lead = l, \<dots> = x\<rparr>), wrappers = (\<lambda>a. \<lparr>Server = None\<rparr>)\<rparr>"

text \<open>
  The engine's own activity, which is not the wrapper's: the engine at address \<open>e\<close>
  records \<open>l\<close> as its leader.
\<close>

definition engine_sets_lead :: "'e memory \<Rightarrow> addr \<Rightarrow> uint64 \<Rightarrow> 'e memory" where
  "engine_sets_lead m e l = m\<lparr>servers := (servers m)(e := (servers m e)\<lparr>lead := l\<rparr>)\<rparr>"

section \<open>Properties\<close>

lemma EtcdLeaderID_wraps:
  "wraps m a e \<Longrightarrow> EtcdLeaderID m (Some a) = (Inr (lead (servers m e), None), m)"
  by (simp add: EtcdLeaderID_def Lead_def wraps_def)

lemma wraps_memory_of: "wraps (memory_of l x) a 0"
  by (simp add: wraps_def memory_of_def)

lemma lead_memory_of: "lead (servers (memory_of l x) e) = l"
  by (simp add: memory_of_def)

text \<open>
  C1. For a wrapper that wraps an engine whose leader field is \<open>L\<close>, the query returns
  \<open>(L, nil)\<close>.
\<close>

theorem C1_returns_leader:
  assumes "wraps m a e" and "lead (servers m e) = L"
  shows "fst (EtcdLeaderID m (Some a)) = Inr (L, None)"
  using assms by (simp add: EtcdLeaderID_wraps)

text \<open>The scenario of C1: leader field 7, result \<open>(7, nil)\<close>.\<close>

theorem C1_returns_leader_witness:
  "wraps (memory_of 7 ()) 0 0 \<and> lead (servers (memory_of 7 ()) 0) = 7
   \<and> fst (EtcdLeaderID (memory_of 7 ()) (Some 0)) = Inr (7, None)"
  using C1_returns_leader [of "memory_of 7 ()" 0 0 7]
  by (simp add: wraps_memory_of lead_memory_of)

lemma EtcdLeaderID_memory: "snd (EtcdLeaderID m w) = m"
  by (simp add: EtcdLeaderID_def split: option.split sum.split)

lemma EtcdLeaderID_nil_Server:
  "Server (wrappers m a) = None \<Longrightarrow> EtcdLeaderID m (Some a) = (Inl NilPointerDereference, m)"
  by (simp add: EtcdLeaderID_def Lead_def)

lemma EtcdLeaderID_no_error: "fst (EtcdLeaderID m w) \<noteq> Inr (v, Some err)"
  by (simp add: EtcdLeaderID_def split: option.split sum.split)

lemma wraps_engine_sets_lead: "wraps (engine_sets_lead m e l) a e' = wraps m a e'"
  by (simp add: wraps_def engine_sets_lead_def)

lemma lead_engine_sets_lead: "lead (servers (engine_sets_lead m e l) e) = l"
  by (simp add: engine_sets_lead_def)

text \<open>
  C2, as the code has it. When the engine's leader field holds the value \<open>none\<close> that
  the engine uses for "no leader known", whichever value that is, the query returns
  \<open>(none, nil)\<close>: the sentinel comes back as the identifier, with no error. The spec
  asks for an error outcome there; the code has no error branch at all.
\<close>

theorem C2_sentinel_passed_through:
  assumes "wraps m a e" and "lead (servers m e) = none"
  shows "fst (EtcdLeaderID m (Some a)) = Inr (none, None)"
  using assms by (simp add: EtcdLeaderID_wraps)

theorem C2_sentinel_passed_through_witness:
  "wraps (memory_of 0 ()) 0 0 \<and> lead (servers (memory_of 0 ()) 0) = 0
   \<and> fst (EtcdLeaderID (memory_of 0 ()) (Some 0)) = Inr (0, None)"
  using C2_sentinel_passed_through [of "memory_of 0 ()" 0 0 0]
  by (simp add: wraps_memory_of lead_memory_of)

text \<open>
  C2 as the spec states it fails where the leader field is 0, the sentinel of the
  embedded engine:
  the query returns the identifier 0 with a \<open>nil\<close> error.
\<close>

theorem C2_no_error_for_sentinel_counterexample:
  "fst (EtcdLeaderID (memory_of 0 ()) (Some 0)) = Inr (0, None)"
  by (simp add: EtcdLeaderID_def Lead_def memory_of_def)

text \<open>
  C3. Whatever the state of the engine a wrapper wraps, the query returns a value with
  a \<open>nil\<close> error.
\<close>

theorem C3_error_is_nil:
  assumes "wraps m a e"
  shows "\<exists>v. fst (EtcdLeaderID m (Some a)) = Inr (v, None)"
  using assms by (simp add: EtcdLeaderID_wraps)

theorem C3_error_is_nil_witness:
  "wraps (memory_of 9 ()) 0 0 \<and> (\<exists>v. fst (EtcdLeaderID (memory_of 9 ()) (Some 0)) = Inr (v, None))"
  using C3_error_is_nil [of "memory_of 9 ()" 0 0]
  by (simp add: wraps_memory_of)

text \<open>
  C4. The query passes the engine's answer through: the identifier returned is the value
  of \<open>Lead()\<close> on the wrapped engine, with a \<open>nil\<close> error. Nothing is cached: once the
  engine has recorded another leader \<open>l\<close>, the next query returns \<open>l\<close>.
\<close>

theorem C4_pass_through:
  assumes "wraps m a e"
  shows "(\<exists>v. Lead m (Some e) = Inr v \<and> fst (EtcdLeaderID m (Some a)) = Inr (v, None))
       \<and> fst (EtcdLeaderID (engine_sets_lead (snd (EtcdLeaderID m (Some a))) e l) (Some a))
         = Inr (l, None)"
proof
  show "\<exists>v. Lead m (Some e) = Inr v \<and> fst (EtcdLeaderID m (Some a)) = Inr (v, None)"
    using assms by (simp add: EtcdLeaderID_wraps Lead_def)
next
  have "wraps (engine_sets_lead m e l) a e"
    using assms by (simp add: wraps_engine_sets_lead)
  then have "EtcdLeaderID (engine_sets_lead m e l) (Some a)
             = (Inr (lead (servers (engine_sets_lead m e l) e), None), engine_sets_lead m e l)"
    by (rule EtcdLeaderID_wraps)
  then show "fst (EtcdLeaderID (engine_sets_lead (snd (EtcdLeaderID m (Some a))) e l) (Some a))
             = Inr (l, None)"
    by (simp add: EtcdLeaderID_memory lead_engine_sets_lead)
qed

theorem C4_pass_through_witness:
  "wraps (memory_of 3 ()) 0 0
   \<and> (\<exists>v. Lead (memory_of 3 ()) (Some 0) = Inr v
          \<and> fst (EtcdLeaderID (memory_of 3 ()) (Some 0)) = Inr (v, None))
   \<and> fst (EtcdLeaderID
            (engine_sets_lead (snd (EtcdLeaderID (memory_of 3 ()) (Some 0))) 0 8) (Some 0))
       = Inr (8, None)"
  using C4_pass_through [of "memory_of 3 ()" 0 0 8]
  by (simp add: wraps_memory_of)

text \<open>
  C5. A query changes nothing: the memory after the call, engines and wrappers alike,
  is the memory before it.
\<close>

theorem C5_memory_unchanged:
  "snd (EtcdLeaderID m w) = m"
  by (cases w) (simp_all add: EtcdLeaderID_def split: sum.split)

lemma query_n_wraps:
  "wraps m a e \<Longrightarrow> query_n n m (Some a) = replicate n (Inr (lead (servers m e), None))"
  by (induction n) (simp_all add: EtcdLeaderID_wraps)

text \<open>
  C6. While the leader field of the wrapped engine stays at \<open>L\<close>, each of \<open>n\<close> queries
  returns \<open>(L, nil)\<close>: the results of the \<open>n\<close> calls are \<open>n\<close> copies of it.
\<close>

theorem C6_stable_leader_same_result:
  assumes "wraps m a e" and "lead (servers m e) = L"
  shows "query_n n m (Some a) = replicate n (Inr (L, None))"
  using assms by (simp add: query_n_wraps)

text \<open>The scenario of C6: 100 calls, leader field 42.\<close>

theorem C6_stable_leader_same_result_witness:
  "wraps (memory_of 42 ()) 0 0 \<and> lead (servers (memory_of 42 ()) 0) = 42
   \<and> query_n 100 (memory_of 42 ()) (Some 0) = replicate 100 (Inr (42, None))"
  using C6_stable_leader_same_result [of "memory_of 42 ()" 0 0 42 100]
  by (simp add: wraps_memory_of lead_memory_of)



text \<open>
  C9. The query checks neither its receiver nor the \<open>Server\<close> pointer. On a wrapper whose
  \<open>Server\<close> is \<open>nil\<close> the call panics in the read through \<open>nil\<close>; and no call at all, on
  any memory and receiver, returns an error value.
\<close>

theorem C9_nil_Server_panics:
  assumes "Server (wrappers m a) = None"
  shows "fst (EtcdLeaderID m (Some a)) = Inl NilPointerDereference
       \<and> (\<forall>m' w v err. fst (EtcdLeaderID (m' :: 'e memory) w) \<noteq> Inr (v, Some err))"
  using assms by (simp add: EtcdLeaderID_nil_Server EtcdLeaderID_no_error)

theorem C9_nil_Server_panics_witness:
  "Server (wrappers (memory_nil 5 ()) 0) = None
   \<and> fst (EtcdLeaderID (memory_nil 5 ()) (Some 0)) = Inl NilPointerDereference
   \<and> (\<forall>m' w v err. fst (EtcdLeaderID (m' :: unit memory) w) \<noteq> Inr (v, Some err))"
  using C9_nil_Server_panics [of "memory_nil 5 ()" 0]
  by (simp add: memory_nil_def)

text \<open>
  C10. The result depends on the engine only through \<open>Lead()\<close>: two wrappers, in any two
  memories, whose engines give the same \<open>Lead()\<close> get the same result, whatever else
  differs between the engines and the memories.
\<close>

theorem C10_depends_on_Lead_only:
  assumes "wraps m1 a1 e1" and "wraps m2 a2 e2"
    and "Lead m1 (Some e1) = Lead m2 (Some e2)"
  shows "fst (EtcdLeaderID m1 (Some a1)) = fst (EtcdLeaderID m2 (Some a2))"
  using assms by (simp add: EtcdLeaderID_wraps Lead_def)

theorem C10_depends_on_Lead_only_witness:
  "wraps (memory_of 6 (1 :: nat)) 0 0 \<and> wraps (memory_of 6 (2 :: nat)) 4 0
   \<and> Lead (memory_of 6 (1 :: nat)) (Some 0) = Lead (memory_of 6 (2 :: nat)) (Some 0)
   \<and> memory_of 6 (1 :: nat) \<noteq> memory_of 6 (2 :: nat)
   \<and> fst (EtcdLeaderID (memory_of 6 (1 :: nat)) (Some 0))
       = fst (EtcdLeaderID (memory_of 6 (2 :: nat)) (Some 4))"
proof -
  have ne: "memory_of 6 (1 :: nat) \<noteq> memory_of 6 (2 :: nat)"
    by (simp add: memory_of_def fun_eq_iff)
  have same: "Lead (memory_of 6 (1 :: nat)) (Some 0) = Lead (memory_of 6 (2 :: nat)) (Some 0)"
    by (simp add: Lead_def lead_memory_of)
  show ?thesis
    using C10_depends_on_Lead_only [OF wraps_memory_of wraps_memory_of same, of 0 4] ne same
    by (simp add: wraps_memory_of)
qed

end
